theory Spec2Isabelle
  imports Complex_Main
begin

section \<open>Data frames\<close>

text \<open>
  The module \<^verbatim>\<open>auto_causality/datasets.py\<close> works on pandas data frames. A frame is
  modelled as the ordered list of its columns, each a label with the cells of that
  column, top row first. A cell is one of the values a CSV reader produces.
\<close>

datatype cell =
    IntV int
  | FloatV real
  | BoolV bool
  | StrV string
  | NaN

type_synonym column = "string \<times> cell list"
type_synonym dataframe = "column list"

text \<open>
  The errors the module can end with. \<open>InvalidTreatmentError\<close> is the error the
  preprocessing contract names; the others are the Python and pandas exceptions the
  statements of the module raise.
\<close>

datatype py_error =
    KeyError string
  | ValueError
  | IndexError
  | UnboundLocalError string
  | IOError
  | InvalidTreatmentError

definition columns :: "dataframe \<Rightarrow> string list" where
  "columns df = map fst df"

text \<open>\<^verbatim>\<open>len(df)\<close>: the number of rows.\<close>

definition len_df :: "dataframe \<Rightarrow> nat" where
  "len_df df = (case df of [] \<Rightarrow> 0 | (_, cs) # _ \<Rightarrow> length cs)"



text \<open>\<^verbatim>\<open>df[name]\<close>: the column, or \<^verbatim>\<open>KeyError\<close>.\<close>

definition get_col :: "dataframe \<Rightarrow> string \<Rightarrow> py_error + cell list" where
  "get_col df name = (case map_of df name of None \<Rightarrow> Inl (KeyError name) | Some cs \<Rightarrow> Inr cs)"

text \<open>
  \<^verbatim>\<open>df[name] = values\<close>: an existing column is replaced where it stands, a new one
  is appended on the right.
\<close>

fun set_col :: "dataframe \<Rightarrow> string \<Rightarrow> cell list \<Rightarrow> dataframe" where
  "set_col [] name vs = [(name, vs)]"
| "set_col ((n, cs) # df) name vs =
     (if n = name then (n, vs) # df else (n, cs) # set_col df name vs)"

section \<open>The preprocessor\<close>

text \<open>
  \<^verbatim>\<open>np.random.randint(0, 2, size=n)\<close>: \<open>n\<close> draws from the generator, each 0 or 1.
  The generator is the sequence of its future coin flips.
\<close>

definition randint_0_2 :: "(nat \<Rightarrow> bool) \<Rightarrow> nat \<Rightarrow> cell list" where
  "randint_0_2 rng n = map (\<lambda>i. IntV (if rng i then 1 else 0)) [0..<n]"

text \<open>
  \<^verbatim>\<open>featurize\<close> lives in \<^verbatim>\<open>auto_causality.utils\<close> and is opaque here: a parameter
  that receives the caller's frame, the feature list, the excluded columns and the
  \<^verbatim>\<open>drop_first\<close> flag. It gives back the frame as it leaves it (Python hands the
  frame over by reference) and either an error or the featurized frame.
\<close>

text \<open>
  \<^verbatim>\<open>Series.astype(int)\<close> belongs to pandas and is opaque here as well: a parameter
  that receives the cells of the column and gives back the cast column, row for row,
  or the exception the library raises.
\<close>

type_synonym caster = "cell list \<Rightarrow> py_error + cell list"

type_synonym featurizer =
  "dataframe \<Rightarrow> string list \<Rightarrow> string list \<Rightarrow> bool \<Rightarrow> dataframe \<times> (py_error + dataframe)"

type_synonym preprocessed =
  "dataframe \<times> string list \<times> string list \<times> string list \<times> string"

text \<open>
  \<^verbatim>\<open>preprocess_dataset(data)\<close>. The first component of the result is the caller's
  frame after the call, the second what the call returns or raises.
\<close>

definition preprocess_dataset ::
  "caster \<Rightarrow> featurizer \<Rightarrow> (nat \<Rightarrow> bool) \<Rightarrow> dataframe
     \<Rightarrow> dataframe \<times> (py_error + preprocessed)" where
  "preprocess_dataset astype_int featurize rng data =
     (let treatment = ''treatment'';
          targets = [''y_factual''];
          features = filter (\<lambda>c. c \<notin> set (treatment # targets)) (columns data)
      in case get_col data treatment of
           Inl e \<Rightarrow> (data, Inl e)
         | Inr tcol \<Rightarrow>
             (case astype_int tcol of
                Inl e \<Rightarrow> (data, Inl e)
              | Inr ints \<Rightarrow>
                  (let data1 = set_col data treatment ints;
                       data2 = set_col data1 ''random'' (randint_0_2 rng (len_df data1))
                   in case featurize data2 features (treatment # targets) False of
                        (data3, Inl e) \<Rightarrow> (data3, Inl e)
                      | (data3, Inr used_df) \<Rightarrow>
                          (let used_features =
                                 filter (\<lambda>c. c \<notin> set (treatment # targets)) (columns used_df);
                               features_X = filter (\<lambda>f. f \<noteq> ''random'') used_features;
                               features_W = filter (\<lambda>f. f \<notin> set features_X) used_features
                           in (data3, Inr (used_df, features_X, features_W, targets, treatment))))))"

text \<open>
  The frame as \<open>preprocess_dataset\<close> hands it to \<^verbatim>\<open>featurize\<close>, given the coerced
  treatment column: the caller's frame after the two assignments
  \<^verbatim>\<open>data[treatment] = ...\<close> and \<^verbatim>\<open>data["random"] = ...\<close>.
\<close>

definition handed_over :: "(nat \<Rightarrow> bool) \<Rightarrow> dataframe \<Rightarrow> cell list \<Rightarrow> dataframe" where
  "handed_over rng data ints =
     set_col (set_col data ''treatment'' ints) ''random''
       (randint_0_2 rng (len_df (set_col data ''treatment'' ints)))"

text \<open>
  A featurizer to run the preprocessor on: it leaves the frame as it is and returns it
  whole. It stands in for the opaque routine in the worked examples only.
\<close>

definition keep_all :: featurizer where
  "keep_all df features exclude_cols drop_first = (df, Inr df)"


text \<open>
  A cast to run the preprocessor on. A column of 64-bit integers comes back as it is,
  and a column that holds a string that is no number is refused with
  \<^verbatim>\<open>ValueError\<close>: on these columns it does what the library's cast does. It refuses
  every other column as well, where the library may do otherwise; it stands in for the
  library's cast in the worked examples only.
\<close>

definition cast_ints :: caster where
  "cast_ints cs =
     (if list_all (\<lambda>c. case c of IntV i \<Rightarrow> - (2 ^ 63) \<le> i \<and> i < 2 ^ 63 | _ \<Rightarrow> False) cs
      then Inr cs else Inl ValueError)"

definition coin :: "nat \<Rightarrow> bool" where
  "coin i = even i"

definition toy_data :: dataframe where
  "toy_data =
     [(''treatment'', [IntV 1, IntV 0]),
      (''y_factual'', [FloatV 2.5, FloatV 1]),
      (''x1'', [FloatV 0.5, FloatV 3])]"


text \<open>A frame whose treatment column holds a value that is no number.\<close>

definition bad_data :: dataframe where
  "bad_data =
     [(''treatment'', [IntV 1, StrV ''abc'']),
      (''y_factual'', [FloatV 2.5, FloatV 1]),
      (''x1'', [FloatV 0.5, FloatV 3])]"

section \<open>The data set loaders\<close>

text \<open>Python's \<^verbatim>\<open>str(i)\<close> for a natural number: its decimal digits.\<close>

fun str_nat :: "nat \<Rightarrow> string" where
  "str_nat n =
     (if n < 10 then [char_of (48 + n)] else str_nat (n div 10) @ [char_of (48 + n mod 10)])"

declare str_nat.simps [simp del]

text \<open>\<^verbatim>\<open>s in c\<close> on strings: \<open>s\<close> occurs in \<open>c\<close> as a contiguous piece.\<close>

fun contains :: "string \<Rightarrow> string \<Rightarrow> bool" where
  "contains s [] = (s = [])"
| "contains s (c # cs) = (take (length s) (c # cs) = s \<or> contains s cs)"

text \<open>
  \<^verbatim>\<open>df.columns = names\<close>: the labels are replaced from left to right; pandas refuses a
  list of another length with a \<^verbatim>\<open>ValueError\<close>.
\<close>

definition set_columns :: "dataframe \<Rightarrow> string list \<Rightarrow> py_error + dataframe" where
  "set_columns df names =
     (if length names = length df then Inr (zip names (map snd df)) else Inl ValueError)"

text \<open>\<^verbatim>\<open>df.drop(columns=labels)\<close>, for labels taken from the frame itself.\<close>

definition drop_columns :: "dataframe \<Rightarrow> string list \<Rightarrow> dataframe" where
  "drop_columns df labels = filter (\<lambda>c. fst c \<notin> set labels) df"

definition ihdp_col :: "string list" where
  "ihdp_col =
     [''treatment'', ''y_factual'', ''y_cfactual'', ''mu0'', ''mu1'']
     @ map (\<lambda>i. ''x'' @ str_nat i) [1..<26]"

text \<open>
  \<^verbatim>\<open>synth_ihdp()\<close>. The argument is what \<^verbatim>\<open>pd.read_csv(url, header=None)\<close> gives:
  the frame of the remote file, or the error of the download.
\<close>

definition synth_ihdp :: "py_error + dataframe \<Rightarrow> py_error + dataframe" where
  "synth_ihdp read_csv =
     (case read_csv of
        Inl e \<Rightarrow> Inl e
      | Inr raw \<Rightarrow>
          (case set_columns raw ihdp_col of
             Inl e \<Rightarrow> Inl e
           | Inr data \<Rightarrow>
               (let ignore_patterns = [''y_cfactual'', ''mu''];
                    ignore_cols =
                      filter (\<lambda>c. list_ex (\<lambda>s. contains s c) ignore_patterns) (columns data)
                in Inr (drop_columns data ignore_cols))))"

text \<open>The labels \<open>synth_ihdp\<close> keeps: all but \<open>y_cfactual\<close>, \<open>mu0\<close> and \<open>mu1\<close>.\<close>

definition ihdp_kept :: "string list" where
  "ihdp_kept =
     [''treatment'', ''y_factual'', ''x1'', ''x2'', ''x3'', ''x4'', ''x5'', ''x6'',
      ''x7'', ''x8'', ''x9'', ''x10'', ''x11'', ''x12'', ''x13'', ''x14'', ''x15'',
      ''x16'', ''x17'', ''x18'', ''x19'', ''x20'', ''x21'', ''x22'', ''x23'', ''x24'',
      ''x25'']"

text \<open>A file of 30 columns with one row, as \<^verbatim>\<open>header=None\<close> reads it.\<close>

definition toy_ihdp_raw :: dataframe where
  "toy_ihdp_raw = map (\<lambda>i. (str_nat i, [IntV (int i)])) [0..<30]"

text \<open>Python's truth value of a cell; \<^verbatim>\<open>bool(float('nan'))\<close> is \<^verbatim>\<open>True\<close>.\<close>

fun truthy :: "cell \<Rightarrow> bool" where
  "truthy (IntV i) = (i \<noteq> 0)"
| "truthy (FloatV x) = (x \<noteq> 0)"
| "truthy (BoolV b) = b"
| "truthy (StrV s) = (s \<noteq> [])"
| "truthy NaN = True"

text \<open>
  The element types pandas gives a column. A column of integers only is an
  \<^verbatim>\<open>int64\<close> column, one of floats and missing values only a \<^verbatim>\<open>float64\<close> column, one
  of booleans only a \<^verbatim>\<open>bool\<close> column; any other column is an \<^verbatim>\<open>object\<close> column
  that holds the Python values.
\<close>

datatype dtype = Int64 | Float64 | Bool | Object

fun is_int :: "cell \<Rightarrow> bool" where
  "is_int (IntV i) = True"
| "is_int c = False"

fun is_float :: "cell \<Rightarrow> bool" where
  "is_float (FloatV x) = True"
| "is_float NaN = True"
| "is_float c = False"

fun is_bool :: "cell \<Rightarrow> bool" where
  "is_bool (BoolV b) = True"
| "is_bool c = False"

definition dtype_of :: "cell list \<Rightarrow> dtype" where
  "dtype_of cs =
     (if list_all is_int cs then Int64
      else if list_all is_float cs then Float64
      else if list_all is_bool cs then Bool
      else Object)"

text \<open>
  The 64-bit float nearest to an integer between 0 and \<open>2 ^ 63\<close>, as the conversion
  of an \<^verbatim>\<open>int64\<close> to \<^verbatim>\<open>float64\<close> rounds it: numbers below \<open>2 ^ 53\<close> are floats
  already; a larger one keeps its 53 leading bits, rounded to the nearest, a tie to the
  even one.
\<close>

definition f64_round :: "int \<Rightarrow> int" where
  "f64_round a =
     (if a < 2 ^ 53 then a
      else (let e = length (filter (\<lambda>k. 2 ^ (53 + k) \<le> a) [0..<11]);
                q = a div 2 ^ e;
                r = a mod 2 ^ e
            in (if 2 ^ e < 2 * r \<or> (2 * r = 2 ^ e \<and> odd q) then q + 1 else q) * 2 ^ e))"

text \<open>A cell as a \<^verbatim>\<open>float64\<close> array holds it: an integer becomes the nearest float.\<close>

fun as_float :: "cell \<Rightarrow> cell" where
  "as_float (IntV i) = FloatV (of_int (if i < 0 then - f64_round (- i) else f64_round i))"
| "as_float c = c"

text \<open>
  A cell as pandas may hand it on: as it is, or as the \<^verbatim>\<open>float64\<close> it becomes.
\<close>

definition carried :: "cell \<Rightarrow> cell \<Rightarrow> bool" where
  "carried c c' = (c' = c \<or> c' = as_float c)"

text \<open>
  The element type of \<^verbatim>\<open>df.values\<close>, the common type of the columns: the columns'
  own type if they agree, \<^verbatim>\<open>float64\<close> for a mix of \<^verbatim>\<open>int64\<close> and \<^verbatim>\<open>float64\<close>,
  \<^verbatim>\<open>object\<close> for any other mix.
\<close>

definition common_dtype :: "dtype list \<Rightarrow> dtype" where
  "common_dtype ds =
     (if list_all (\<lambda>d. d = Int64) ds then Int64
      else if list_all (\<lambda>d. d = Float64) ds then Float64
      else if list_all (\<lambda>d. d = Bool) ds then Bool
      else if list_all (\<lambda>d. d = Int64 \<or> d = Float64) ds then Float64
      else Object)"

text \<open>
  A row of a frame, as \<^verbatim>\<open>DataFrame.apply(f, axis=1)\<close> hands it to \<open>f\<close>: a row of
  \<^verbatim>\<open>df.values\<close>, so every cell comes in the common element type of the frame.
\<close>

type_synonym row = "(string \<times> cell) list"

definition row_of :: "dataframe \<Rightarrow> nat \<Rightarrow> row" where
  "row_of df i =
     (let d = common_dtype (map (\<lambda>c. dtype_of (snd c)) df)
      in map (\<lambda>c. (fst c, if d = Float64 then as_float (snd c ! i) else snd c ! i)) df)"

definition row_get :: "row \<Rightarrow> string \<Rightarrow> py_error + cell" where
  "row_get r name = (case map_of r name of None \<Rightarrow> Inl (KeyError name) | Some v \<Rightarrow> Inr v)"

fun collect :: "('a \<Rightarrow> py_error + 'b) \<Rightarrow> 'a list \<Rightarrow> py_error + 'b list" where
  "collect f [] = Inr []"
| "collect f (x # xs) =
     (case f x of
        Inl e \<Rightarrow> Inl e
      | Inr y \<Rightarrow> (case collect f xs of Inl e \<Rightarrow> Inl e | Inr ys \<Rightarrow> Inr (y # ys)))"

text \<open>
  The column pandas makes of a list of results: when the results are numbers, not all
  of them integers, it is a \<^verbatim>\<open>float64\<close> column and the integers among them become
  floats; any other list is kept as it is.
\<close>

definition infer_column :: "cell list \<Rightarrow> cell list" where
  "infer_column rs =
     (if list_all (\<lambda>c. is_int c \<or> is_float c) rs \<and> \<not> list_all is_int rs
      then map as_float rs else rs)"

text \<open>
  \<^verbatim>\<open>df.apply(f, axis=1)\<close> on a frame with at least one row: \<open>f\<close> on every row, top
  down, the first exception ending the call; the results make a column. (On a frame
  without rows pandas takes a path of its own; the statements about \<open>synth_acic\<close>
  below are about frames with rows.)
\<close>

definition apply_rows :: "(row \<Rightarrow> py_error + cell) \<Rightarrow> dataframe \<Rightarrow> py_error + cell list" where
  "apply_rows f df =
     (case collect f (map (row_of df) [0..<len_df df]) of
        Inl e \<Rightarrow> Inl e
      | Inr rs \<Rightarrow> Inr (infer_column rs))"

text \<open>\<^verbatim>\<open>lambda row: row["y1"] if row["z"] else row["y0"]\<close>\<close>

definition factual_outcome :: "row \<Rightarrow> py_error + cell" where
  "factual_outcome r =
     (case row_get r ''z'' of
        Inl e \<Rightarrow> Inl e
      | Inr z \<Rightarrow> if truthy z then row_get r ''y1'' else row_get r ''y0'')"

text \<open>
  \<^verbatim>\<open>pd.concat(parts, axis=1)\<close> of frames with default row labels: the columns side by
  side. A part with fewer rows than the longest is filled with missing values at the
  bottom, and an \<^verbatim>\<open>int64\<close> column that is filled becomes a \<^verbatim>\<open>float64\<close> column.
\<close>

definition pad_to :: "nat \<Rightarrow> cell list \<Rightarrow> cell list" where
  "pad_to n cs =
     (if length cs < n
      then (if dtype_of cs = Int64 then map as_float cs else cs) @ replicate (n - length cs) NaN
      else cs)"

definition concat_columns :: "dataframe list \<Rightarrow> dataframe" where
  "concat_columns parts =
     (let n = fold max (map len_df parts) 0
      in map (\<lambda>c. (fst c, pad_to n (snd c))) (concat parts))"

text \<open>\<^verbatim>\<open>df.rename(columns=mapping)\<close>\<close>

definition rename_columns :: "dataframe \<Rightarrow> (string \<times> string) list \<Rightarrow> dataframe" where
  "rename_columns df mapping =
     map (\<lambda>c. (case map_of mapping (fst c) of None \<Rightarrow> fst c | Some n \<Rightarrow> n, snd c)) df"

text \<open>
  \<^verbatim>\<open>synth_acic(condition)\<close>. The first argument is what reading \<^verbatim>\<open>x.csv\<close> gives, the
  second what reading \<^verbatim>\<open>zymu_{condition}.csv\<close> gives.
\<close>

definition synth_acic ::
  "py_error + dataframe \<Rightarrow> (int \<Rightarrow> py_error + dataframe) \<Rightarrow> int \<Rightarrow> py_error + dataframe" where
  "synth_acic read_x read_zymu condition =
     (case read_x of
        Inl e \<Rightarrow> Inl e
      | Inr covariates \<Rightarrow>
          (case read_zymu condition of
             Inl e \<Rightarrow> Inl e
           | Inr z_y_mu \<Rightarrow>
               (case apply_rows factual_outcome z_y_mu of
                  Inl e \<Rightarrow> Inl e
                | Inr y_factual \<Rightarrow>
                    (let z_y_mu1 = set_col z_y_mu ''y_factual'' y_factual
                     in case get_col z_y_mu1 ''z'' of
                          Inl e \<Rightarrow> Inl e
                        | Inr zs \<Rightarrow>
                            (case get_col z_y_mu1 ''y_factual'' of
                               Inl e \<Rightarrow> Inl e
                             | Inr ys \<Rightarrow>
                                 (let data = concat_columns
                                        [[(''z'', zs)], [(''y_factual'', ys)], covariates]
                                  in Inr (rename_columns data [(''z'', ''treatment'')])))))))"

text \<open>Two small files for \<open>synth_acic\<close>: treatment, outcomes and means; covariates.\<close>

definition toy_zymu :: dataframe where
  "toy_zymu =
     [(''z'', [IntV 1, IntV 0]),
      (''y0'', [FloatV 1.5, FloatV 2]),
      (''y1'', [FloatV 3, FloatV 4.5]),
      (''mu0'', [FloatV 1, FloatV 2]),
      (''mu1'', [FloatV 3, FloatV 4])]"

definition toy_x :: dataframe where
  "toy_x = [(''x_1'', [IntV 7, IntV 8]), (''x_2'', [StrV ''a'', StrV ''b''])]"



text \<open>What \<^verbatim>\<open>amazon_reviews\<close> does to the outside: what it prints and what it downloads.\<close>

datatype event = Print string | Download string string

definition assert_message :: string where
  "assert_message =
     ''you need to specify which rating dataset you'' @ [CHR 0x27] @
     ''d like to load. The options are '' @ [CHR 0x27] @ ''pos'' @ [CHR 0x27] @
     '' or '' @ [CHR 0x27] @ ''neg'' @ [CHR 0x27]"

definition url_pos :: string where
  "url_pos = ''https://drive.google.com/file/d/167CYEnYinePTNtKpVpsg0BVkoTwOwQfK/view?usp=sharing''"

definition url_neg :: string where
  "url_neg = ''https://drive.google.com/file/d/1b-MPNqxCyWSJE5uyn5-VJUwC8056HM8u/view?usp=sharing''"

definition fallback_message :: "string \<Rightarrow> string" where
  "fallback_message url =
     ''The Amazon dataset is hosted on google drive. As it'' @ [CHR 0x27] @
     ''s quite large, the gdown package is required to download the package automatically. ''
     @ ''The package can be installed via '' @ [CHR 0x27] @ ''pip install gdown'' @ [CHR 0x27]
     @ ''. Alternatively, you can download it from the following link and store it in the ''
     @ ''datasets folder: '' @ url"

definition amazon_col :: "string list" where
  "amazon_col = [''treatment'', ''y_factual''] @ map (\<lambda>i. ''x_'' @ str_nat i) [1..<301]"

text \<open>\<^verbatim>\<open>df.columns[[2, 3, 4]]\<close>: the labels at these places, or \<^verbatim>\<open>IndexError\<close>.\<close>

definition labels_at :: "dataframe \<Rightarrow> nat list \<Rightarrow> py_error + string list" where
  "labels_at df idx =
     (if list_all (\<lambda>i. i < length df) idx then Inr (map (\<lambda>i. columns df ! i) idx)
      else Inl IndexError)"

text \<open>
  \<^verbatim>\<open>amazon_reviews(rating)\<close>. \<open>gdown\<close> says whether the package can be imported;
  \<open>fetch url file\<close> is what \<^verbatim>\<open>gdown.download\<close> followed by \<^verbatim>\<open>pd.read_csv\<close> of the
  file gives. The local variable \<^verbatim>\<open>url\<close> is bound only on the two branches that
  assign it; reading it unbound raises \<^verbatim>\<open>UnboundLocalError\<close>. The function returns a
  frame, or \<^verbatim>\<open>None\<close> after the closing message.
\<close>

definition amazon_reviews ::
  "bool \<Rightarrow> (string \<Rightarrow> string \<Rightarrow> py_error + dataframe) \<Rightarrow> string
     \<Rightarrow> event list \<times> (py_error + dataframe option)" where
  "amazon_reviews gdown fetch rating =
     (let out = (if rating \<in> set [''pos'', ''neg''] then [] else [Print assert_message])
      in if gdown then
           (let url = (if rating = ''pos'' then Some url_pos
                       else if rating = ''neg'' then Some url_neg else None)
            in case url of
                 None \<Rightarrow> (out, Inl (UnboundLocalError ''url''))
               | Some u \<Rightarrow>
                   (let file = ''amazon_'' @ rating @ ''.csv'';
                        out1 = out @ [Download u file]
                    in case fetch u file of
                         Inl e \<Rightarrow> (out1, Inl e)
                       | Inr df \<Rightarrow>
                           (case labels_at df [2, 3, 4] of
                              Inl e \<Rightarrow> (out1, Inl e)
                            | Inr labels \<Rightarrow>
                                (case set_columns (drop_columns df labels) amazon_col of
                                   Inl e \<Rightarrow> (out1, Inl e)
                                 | Inr df1 \<Rightarrow> (out1, Inr (Some df1))))))
         else
           (let url = (None :: string option)
            in case url of
                 None \<Rightarrow> (out, Inl (UnboundLocalError ''url''))
               | Some u \<Rightarrow> (out @ [Print (fallback_message u)], Inr None)))"

text \<open>A downloaded file of 305 columns and no rows.\<close>

definition toy_amazon_raw :: dataframe where
  "toy_amazon_raw =
     (''t'', []) # (''y'', []) # (''a'', []) # (''b'', []) # (''c'', [])
     # map (\<lambda>i. (''x_'' @ str_nat i, [])) [1..<301]"

section \<open>The tuning run and the selection of the best trial\<close>

text \<open>
  The orchestrator and the selector are not part of the sources at hand; the definitions
  of this section follow the specification of the tuning run.
\<close>

type_synonym ident = string

datatype 'm trial_result = Succeeded 'm real | Failed string

datatype direction = LowerIsBetter | HigherIsBetter

datatype run_error = NoSuccessfulTrialError

type_synonym 'm run_result = "(ident \<times> 'm trial_result) list"

text \<open>
  Modelled from the spec: one trial of the Tuning Orchestrator (the orchestrator's code
  is missing). The candidate is fitted; a fitted model is scored and recorded as a
  successful Trial Result, a fitting failure is recorded as a failed Trial Result that
  carries the reason.
\<close>

definition run_trial ::
  "(ident \<Rightarrow> string + 'm) \<Rightarrow> ('m \<Rightarrow> real) \<Rightarrow> ident \<Rightarrow> ident \<times> 'm trial_result" where
  "run_trial fit score c =
     (c, case fit c of Inl reason \<Rightarrow> Failed reason | Inr m \<Rightarrow> Succeeded m (score m))"

text \<open>
  Modelled from the spec: \<^verbatim>\<open>run\<close> of the Tuning Orchestrator (missing code). Every
  candidate of the list is tried in turn, whatever became of the ones before it; the Run
  Result holds the Trial Results keyed by identifier, in Candidate List order.
\<close>

definition run :: "(ident \<Rightarrow> string + 'm) \<Rightarrow> ('m \<Rightarrow> real) \<Rightarrow> ident list \<Rightarrow> 'm run_result" where
  "run fit score candidates = map (run_trial fit score) candidates"

text \<open>Modelled from the spec: the successful trials of a Run Result with their scores.\<close>

fun successes :: "'m run_result \<Rightarrow> (ident \<times> real) list" where
  "successes [] = []"
| "successes ((c, Succeeded m s) # rest) = (c, s) # successes rest"
| "successes ((c, Failed reason) # rest) = successes rest"

text \<open>
  Modelled from the spec: the direction of the metric, lower-is-better or
  higher-is-better, fixed per metric choice.
\<close>

definition better :: "direction \<Rightarrow> real \<Rightarrow> real \<Rightarrow> bool" where
  "better d a b = (case d of LowerIsBetter \<Rightarrow> a < b | HigherIsBetter \<Rightarrow> b < a)"

text \<open>
  Modelled from the spec: the scan of \<^verbatim>\<open>select_best\<close> (missing code). A later trial
  replaces the best one so far only when its score is strictly better, so among equal
  scores the earliest in Candidate List order stays.
\<close>

fun best_from :: "direction \<Rightarrow> ident \<times> real \<Rightarrow> (ident \<times> real) list \<Rightarrow> ident \<times> real" where
  "best_from d b [] = b"
| "best_from d b (x # xs) = best_from d (if better d (snd x) (snd b) then x else b) xs"

text \<open>
  Modelled from the spec: \<^verbatim>\<open>select_best\<close> of the Scorer/Selector (missing code): the
  optimal score among successful trials only, \<^verbatim>\<open>NoSuccessfulTrialError\<close> if every
  trial failed.
\<close>

definition select_best :: "direction \<Rightarrow> 'm run_result \<Rightarrow> run_error + ident" where
  "select_best d rr =
     (case successes rr of
        [] \<Rightarrow> Inl NoSuccessfulTrialError
      | x # xs \<Rightarrow> Inr (fst (best_from d x xs)))"

text \<open>Modelled from the spec: a candidate fails during fitting.\<close>

definition fails :: "(ident \<Rightarrow> string + 'm) \<Rightarrow> ident \<Rightarrow> bool" where
  "fails fit c = (case fit c of Inl reason \<Rightarrow> True | Inr m \<Rightarrow> False)"

text \<open>
  Three candidates to run the model on: the second fails to fit, the third scores lower
  than the first.
\<close>

definition toy_fit :: "ident \<Rightarrow> string + string" where
  "toy_fit c = (if c = ''b'' then Inl ''did not converge'' else Inr c)"

definition toy_score :: "string \<Rightarrow> real" where
  "toy_score m = (if m = ''a'' then 2 else 1)"

section \<open>Properties of the preprocessor\<close>

lemma map_of_set_col: "map_of (set_col df name vs) = (map_of df)(name \<mapsto> vs)"
  by (induction df name vs rule: set_col.induct) auto

lemma get_col_set_col:
  "get_col (set_col df name vs) n = (if n = name then Inr vs else get_col df n)"
  by (simp add: get_col_def map_of_set_col)

lemma columns_set_col:
  "columns (set_col df name vs) = (if name \<in> set (columns df) then columns df else columns df @ [name])"
  by (induction df name vs rule: set_col.induct) (auto simp: columns_def)


lemma preprocess_dataset_cast_fails:
  assumes "get_col data ''treatment'' = Inr tcol" and "astype_int tcol = Inl e"
  shows "preprocess_dataset astype_int fz rng data = (data, Inl e)"
  using assms by (simp add: preprocess_dataset_def)

lemma preprocess_dataset_unfold:
  assumes "get_col data ''treatment'' = Inr tcol" and "astype_int tcol = Inr ints"
  shows "preprocess_dataset astype_int fz rng data =
     (case fz (handed_over rng data ints)
              (filter (\<lambda>c. c \<notin> set [''treatment'', ''y_factual'']) (columns data))
              [''treatment'', ''y_factual''] False of
        (data3, Inl e) \<Rightarrow> (data3, Inl e)
      | (data3, Inr used_df) \<Rightarrow>
          (data3, Inr (used_df,
             filter (\<lambda>f. f \<noteq> ''random'')
               (filter (\<lambda>c. c \<notin> set [''treatment'', ''y_factual'']) (columns used_df)),
             filter (\<lambda>f. f \<notin> set (filter (\<lambda>f. f \<noteq> ''random'')
               (filter (\<lambda>c. c \<notin> set [''treatment'', ''y_factual'']) (columns used_df))))
               (filter (\<lambda>c. c \<notin> set [''treatment'', ''y_factual'']) (columns used_df)),
             [''y_factual''], ''treatment'')))"
  by (simp only: preprocess_dataset_def Let_def assms sum.case handed_over_def)


lemma preprocess_dataset_InrD:
  assumes "snd (preprocess_dataset astype_int featurize rng data) = Inr (used_df, fX, fW, tg, tr)"
  shows "tr = ''treatment'' \<and> tg = [''y_factual''] \<and>
         fX = filter (\<lambda>f. f \<noteq> ''random'')
                (filter (\<lambda>c. c \<notin> set [''treatment'', ''y_factual'']) (columns used_df)) \<and>
         fW = filter (\<lambda>f. f \<notin> set fX)
                (filter (\<lambda>c. c \<notin> set [''treatment'', ''y_factual'']) (columns used_df))"
proof (cases "get_col data ''treatment''")
  case (Inl e)
  with assms show ?thesis by (simp add: preprocess_dataset_def)
next
  case (Inr tcol)
  note tc = this
  show ?thesis
  proof (cases "astype_int tcol")
    case (Inl e)
    with assms tc show ?thesis by (simp add: preprocess_dataset_def)
  next
    case (Inr ints)
    note ai = this
    obtain data3 r where fz: "featurize (set_col (set_col data ''treatment'' ints) ''random''
          (randint_0_2 rng (len_df (set_col data ''treatment'' ints))))
          (filter (\<lambda>c. c \<notin> set [''treatment'', ''y_factual'']) (columns data))
          [''treatment'', ''y_factual''] False = (data3, r)"
      by (cases "featurize (set_col (set_col data ''treatment'' ints) ''random''
          (randint_0_2 rng (len_df (set_col data ''treatment'' ints))))
          (filter (\<lambda>c. c \<notin> set [''treatment'', ''y_factual'']) (columns data))
          [''treatment'', ''y_factual''] False") simp
    show ?thesis
    proof (cases r)
      case (Inl e)
      with assms tc ai fz show ?thesis
        by (simp add: preprocess_dataset_def Let_def del: set_simps)
    next
      case (Inr u)
      with assms tc ai fz have
        "(used_df, fX, fW, tg, tr) =
           (u, filter (\<lambda>f. f \<noteq> ''random'')
                (filter (\<lambda>c. c \<notin> set [''treatment'', ''y_factual'']) (columns u)),
            filter (\<lambda>f. f \<notin> set (filter (\<lambda>f. f \<noteq> ''random'')
                (filter (\<lambda>c. c \<notin> set [''treatment'', ''y_factual'']) (columns u))))
                (filter (\<lambda>c. c \<notin> set [''treatment'', ''y_factual'']) (columns u)),
            [''y_factual''], ''treatment'')"
        by (simp only: preprocess_dataset_def Let_def sum.case prod.case snd_conv sum.inject)
      then show ?thesis
        by (simp only: prod.inject)
    qed
  qed
qed



lemma get_col_handed_over:
  "get_col (handed_over rng data ints) name =
     (if name = ''random'' then Inr (randint_0_2 rng (len_df (set_col data ''treatment'' ints)))
      else if name = ''treatment'' then Inr ints else get_col data name)"
  by (simp add: handed_over_def get_col_set_col)

lemma columns_handed_over:
  assumes "get_col data ''treatment'' = Inr tcol"
  shows "columns (handed_over rng data ints) =
     (if ''random'' \<in> set (columns data) then columns data else columns data @ [''random''])"
proof -
  from assms have "map_of data ''treatment'' \<noteq> None"
    by (auto simp: get_col_def split: option.splits)
  then have "''treatment'' \<in> set (columns data)"
    by (simp add: columns_def map_of_eq_None_iff)
  then show ?thesis
    by (simp add: handed_over_def columns_set_col)
qed

text \<open>
  C2. Whenever \<open>preprocess_dataset\<close> returns, the lists \<open>features_X\<close> and
  \<open>features_W\<close> have no member in common, and the treatment column's name is in neither.
\<close>

theorem preprocess_dataset_partition_disjoint:
  assumes "snd (preprocess_dataset astype_int featurize rng data) = Inr (used_df, fX, fW, tg, tr)"
  shows "set fX \<inter> set fW = {} \<and> tr \<notin> set fX \<union> set fW"
proof -
  from preprocess_dataset_InrD [OF assms]
  have tr: "tr = ''treatment''"
    and fX: "fX = filter (\<lambda>f. f \<noteq> ''random'')
                (filter (\<lambda>c. c \<notin> set [''treatment'', ''y_factual'']) (columns used_df))"
    and fW: "fW = filter (\<lambda>f. f \<notin> set fX)
                (filter (\<lambda>c. c \<notin> set [''treatment'', ''y_factual'']) (columns used_df))"
    by simp_all
  have "set fX \<inter> set fW = {}"
    by (subst fW) auto
  moreover have "tr \<notin> set fX"
    by (subst fX) (simp add: tr)
  moreover have "tr \<notin> set fW"
    by (subst fW) (simp add: tr)
  ultimately show ?thesis by simp
qed

lemma preprocess_toy_data:
  "preprocess_dataset cast_ints keep_all coin toy_data =
     (toy_data @ [(''random'', [IntV 1, IntV 0])],
      Inr (toy_data @ [(''random'', [IntV 1, IntV 0])],
           [''x1''], [''random''], [''y_factual''], ''treatment''))"
  by code_simp

theorem preprocess_dataset_partition_disjoint_witness:
  "snd (preprocess_dataset cast_ints keep_all coin toy_data) =
     Inr (toy_data @ [(''random'', [IntV 1, IntV 0])],
          [''x1''], [''random''], [''y_factual''], ''treatment'') \<and>
   set [''x1''] \<inter> set [''random''] = {} \<and>
   ''treatment'' \<notin> set [''x1''] \<union> set [''random'']"
proof -
  have h: "snd (preprocess_dataset cast_ints keep_all coin toy_data) =
     Inr (toy_data @ [(''random'', [IntV 1, IntV 0])],
          [''x1''], [''random''], [''y_factual''], ''treatment'')"
    by (simp add: preprocess_toy_data)
  from preprocess_dataset_partition_disjoint [OF h] h show ?thesis by simp
qed

text \<open>
  C3 (as the code has it). \<open>preprocess_dataset\<close> hands the treatment column to the
  library's \<^verbatim>\<open>astype(int)\<close> and does nothing else about it. When the cast returns,
  the frame handed to the featurizer carries the cast column as its treatment column.
  When the cast raises, the call ends with that very exception and the caller's frame
  is as it was: the exception is not caught, not replaced by another one, and no bound
  on the integers is checked.
\<close>

theorem preprocess_dataset_treatment_cast:
  assumes "get_col data ''treatment'' = Inr tcol"
  shows "case astype_int tcol of
           Inl e \<Rightarrow> preprocess_dataset astype_int fz rng data = (data, Inl e)
         | Inr ints \<Rightarrow>
             get_col (handed_over rng data ints) ''treatment'' = Inr ints \<and>
             fst (preprocess_dataset astype_int fz rng data) =
               fst (fz (handed_over rng data ints)
                      (filter (\<lambda>c. c \<notin> set [''treatment'', ''y_factual'']) (columns data))
                      [''treatment'', ''y_factual''] False)"
proof (cases "astype_int tcol")
  case (Inl e)
  from preprocess_dataset_cast_fails [where astype_int = astype_int, OF assms Inl] Inl show ?thesis by simp
next
  case (Inr ints)
  have "fst (preprocess_dataset astype_int fz rng data) =
          fst (fz (handed_over rng data ints)
                 (filter (\<lambda>c. c \<notin> set [''treatment'', ''y_factual'']) (columns data))
                 [''treatment'', ''y_factual''] False)"
    by (simp only: preprocess_dataset_unfold [where astype_int = astype_int, OF assms Inr])
       (simp split: prod.splits sum.splits)
  moreover have "get_col (handed_over rng data ints) ''treatment'' = Inr ints"
    by (simp add: get_col_handed_over)
  ultimately show ?thesis using Inr by simp
qed

lemma preprocess_bad_data:
  "preprocess_dataset cast_ints keep_all coin bad_data = (bad_data, Inl ValueError)"
  by code_simp

theorem preprocess_dataset_treatment_cast_witness:
  "get_col bad_data ''treatment'' = Inr [IntV 1, StrV ''abc''] \<and>
   cast_ints [IntV 1, StrV ''abc''] = Inl ValueError \<and>
   preprocess_dataset cast_ints keep_all coin bad_data = (bad_data, Inl ValueError)"
proof -
  have h: "get_col bad_data ''treatment'' = Inr [IntV 1, StrV ''abc'']"
    by code_simp
  have n: "cast_ints [IntV 1, StrV ''abc''] = Inl ValueError"
    by code_simp
  from preprocess_dataset_treatment_cast [OF h, of cast_ints keep_all coin] n h
  show ?thesis by simp
qed

text \<open>
  The treatment column of \<open>bad_data\<close> holds the string \<open>abc\<close>, which the library's
  cast refuses with \<^verbatim>\<open>ValueError\<close>: the call ends with \<^verbatim>\<open>ValueError\<close>, not with
  \<open>InvalidTreatmentError\<close>.
\<close>

theorem preprocess_dataset_invalid_treatment_counterexample:
  "get_col bad_data ''treatment'' = Inr [IntV 1, StrV ''abc''] \<and>
   snd (preprocess_dataset cast_ints keep_all coin bad_data) = Inl ValueError \<and>
   snd (preprocess_dataset cast_ints keep_all coin bad_data) \<noteq> Inl InvalidTreatmentError"
  by code_simp

text \<open>
  C4 (as the code has it). \<open>preprocess_dataset\<close> writes into the caller's frame: once
  the treatment column is found and cast, the frame has its treatment column replaced
  by the cast integers and a column \<open>random\<close> set (overwritten where it stands, else
  appended on the right); every other column keeps its place and its values. This is
  the caller's frame after the call whenever the featurizer leaves the frame it is handed
  as it is.
\<close>

theorem preprocess_dataset_writes_in_place:
  assumes "get_col data ''treatment'' = Inr tcol" and "astype_int tcol = Inr ints"
    and "fst (fz (handed_over rng data ints)
                (filter (\<lambda>c. c \<notin> set [''treatment'', ''y_factual'']) (columns data))
                [''treatment'', ''y_factual''] False) = handed_over rng data ints"
  shows "fst (preprocess_dataset astype_int fz rng data) = handed_over rng data ints \<and>
         get_col (handed_over rng data ints) ''treatment'' = Inr ints \<and>
         get_col (handed_over rng data ints) ''random'' =
           Inr (randint_0_2 rng (len_df (set_col data ''treatment'' ints))) \<and>
         (\<forall>name. name \<notin> {''treatment'', ''random''} \<longrightarrow>
            get_col (handed_over rng data ints) name = get_col data name) \<and>
         columns (handed_over rng data ints) =
           (if ''random'' \<in> set (columns data) then columns data
            else columns data @ [''random''])"
proof -
  have "fst (preprocess_dataset astype_int fz rng data) =
          fst (fz (handed_over rng data ints)
                 (filter (\<lambda>c. c \<notin> set [''treatment'', ''y_factual'']) (columns data))
                 [''treatment'', ''y_factual''] False)"
    by (simp only: preprocess_dataset_unfold [where astype_int = astype_int, OF assms(1,2)])
       (simp split: prod.splits sum.splits)
  with assms(3) have "fst (preprocess_dataset astype_int fz rng data) = handed_over rng data ints"
    by simp
  moreover have "get_col (handed_over rng data ints) ''treatment'' = Inr ints"
    by (simp add: get_col_handed_over)
  moreover have "get_col (handed_over rng data ints) ''random'' =
           Inr (randint_0_2 rng (len_df (set_col data ''treatment'' ints)))"
    by (simp add: get_col_handed_over)
  moreover have "\<forall>name. name \<notin> {''treatment'', ''random''} \<longrightarrow>
            get_col (handed_over rng data ints) name = get_col data name"
    by (simp add: get_col_handed_over)
  ultimately show ?thesis
    using columns_handed_over [OF assms(1)] by simp
qed

lemma handed_over_toy:
  "handed_over coin toy_data [IntV 1, IntV 0] = toy_data @ [(''random'', [IntV 1, IntV 0])]"
  by code_simp

theorem preprocess_dataset_writes_in_place_witness:
  "get_col toy_data ''treatment'' = Inr [IntV 1, IntV 0] \<and>
   cast_ints [IntV 1, IntV 0] = Inr [IntV 1, IntV 0] \<and>
   fst (preprocess_dataset cast_ints keep_all coin toy_data) = toy_data @ [(''random'', [IntV 1, IntV 0])] \<and>
   columns (toy_data @ [(''random'', [IntV 1, IntV 0])]) =
     [''treatment'', ''y_factual'', ''x1'', ''random'']"
proof -
  have h1: "get_col toy_data ''treatment'' = Inr [IntV 1, IntV 0]" by code_simp
  have h2: "cast_ints [IntV 1, IntV 0] = Inr [IntV 1, IntV 0]" by code_simp
  have h3: "fst (keep_all (handed_over coin toy_data [IntV 1, IntV 0])
                (filter (\<lambda>c. c \<notin> set [''treatment'', ''y_factual'']) (columns toy_data))
                [''treatment'', ''y_factual''] False) = handed_over coin toy_data [IntV 1, IntV 0]"
    by (simp add: keep_all_def)
  have c: "columns (toy_data @ [(''random'', [IntV 1, IntV 0])]) =
     [''treatment'', ''y_factual'', ''x1'', ''random'']"
    by code_simp
  from preprocess_dataset_writes_in_place [where astype_int = cast_ints and fz = keep_all and rng = coin, OF h1 h2 h3]
  have "fst (preprocess_dataset cast_ints keep_all coin toy_data) = handed_over coin toy_data [IntV 1, IntV 0]"
    by blast
  with h1 h2 c show ?thesis by (simp add: handed_over_toy)
qed

text \<open>
  With a featurizer that does not touch the frame, the caller's frame after the call is
  not the frame before the call: it has a fourth column, \<open>random\<close>.
\<close>

theorem preprocess_dataset_mutates_counterexample:
  "fst (preprocess_dataset cast_ints keep_all coin toy_data) \<noteq> toy_data \<and>
   columns toy_data = [''treatment'', ''y_factual'', ''x1''] \<and>
   columns (fst (preprocess_dataset cast_ints keep_all coin toy_data)) =
     [''treatment'', ''y_factual'', ''x1'', ''random'']"
  by code_simp








section \<open>Properties of the loaders\<close>

lemma columns_zip: "length names = length cols \<Longrightarrow> columns (zip names cols) = names"
  by (simp add: columns_def)

lemma set_columns_Inr:
  "set_columns df names = Inr df' \<Longrightarrow>
     length names = length df \<and> df' = zip names (map snd df) \<and> columns df' = names"
  by (auto simp: set_columns_def columns_zip split: if_splits)

lemma drop_own_columns:
  "drop_columns df (filter P (columns df)) = filter (\<lambda>c. \<not> P (fst c)) df"
  unfolding drop_columns_def columns_def
  by (rule filter_cong) auto

lemma filter_zip_keep:
  "length names = length cols \<Longrightarrow> list_all Q names \<Longrightarrow>
     filter (\<lambda>c. Q (fst c)) (zip names cols) = zip names cols"
  by (induction names cols rule: list_induct2) auto

lemma filter_zip_drop:
  "length names = length cols \<Longrightarrow> list_all (\<lambda>n. \<not> Q n) names \<Longrightarrow>
     filter (\<lambda>c. Q (fst c)) (zip names cols) = []"
  by (induction names cols rule: list_induct2) auto

lemma zip_append3:
  "length a = length x \<Longrightarrow> length b = length y \<Longrightarrow>
     zip (a @ b @ c) (x @ y @ z) = zip a x @ zip b y @ zip c z"
  by simp

lemma ihdp_col_parts:
  "ihdp_col = take 2 ihdp_kept @ [''y_cfactual'', ''mu0'', ''mu1''] @ drop 2 ihdp_kept"
  by code_simp

lemma ihdp_kept_pass:
  "list_all (\<lambda>c. \<not> list_ex (\<lambda>s. contains s c) [''y_cfactual'', ''mu'']) ihdp_kept"
  by code_simp

lemma ihdp_ignored_fail:
  "list_all (\<lambda>c. \<not> \<not> list_ex (\<lambda>s. contains s c) [''y_cfactual'', ''mu''])
     [''y_cfactual'', ''mu0'', ''mu1'']"
  by code_simp

lemma synth_ihdp_InrD:
  assumes "synth_ihdp read_csv = Inr df"
  shows "\<exists>raw. read_csv = Inr raw \<and> length raw = 30 \<and>
           df = filter (\<lambda>c. \<not> list_ex (\<lambda>s. contains s (fst c)) [''y_cfactual'', ''mu''])
                  (zip ihdp_col (map snd raw))"
proof -
  from assms obtain raw data where raw: "read_csv = Inr raw"
    and data: "set_columns raw ihdp_col = Inr data"
    and df: "df = drop_columns data
               (filter (\<lambda>c. list_ex (\<lambda>s. contains s c) [''y_cfactual'', ''mu'']) (columns data))"
    by (auto simp: synth_ihdp_def Let_def split: sum.splits)
  have len: "length ihdp_col = 30" by code_simp
  from set_columns_Inr [OF data] len
  have "length raw = 30" and "data = zip ihdp_col (map snd raw)" by simp_all
  with raw df show ?thesis by (simp add: drop_own_columns)
qed

lemma synth_ihdp_frame:
  assumes "synth_ihdp read_csv = Inr df"
  shows "\<exists>raw. read_csv = Inr raw \<and> length raw = 30 \<and>
           df = zip ihdp_kept (map snd (take 2 raw @ drop 5 raw))"
proof -
  from synth_ihdp_InrD [OF assms] obtain raw where raw: "read_csv = Inr raw"
    and len: "length raw = 30"
    and df: "df = filter (\<lambda>c. \<not> list_ex (\<lambda>s. contains s (fst c)) [''y_cfactual'', ''mu''])
                  (zip ihdp_col (map snd raw))"
    by blast
  let ?Q = "\<lambda>c. \<not> list_ex (\<lambda>s. contains s c) [''y_cfactual'', ''mu'']"
  let ?cols = "map snd raw"
  have lk: "length ihdp_kept = 27" by code_simp
  have d5: "drop 5 ?cols = drop 3 (drop 2 ?cols)" by simp
  have split: "take 2 ?cols @ take 3 (drop 2 ?cols) @ drop 5 ?cols = ?cols"
    by (simp only: d5 append_take_drop_id)
  have "zip (take 2 ihdp_kept @ [''y_cfactual'', ''mu0'', ''mu1''] @ drop 2 ihdp_kept)
            (take 2 ?cols @ take 3 (drop 2 ?cols) @ drop 5 ?cols) =
             zip (take 2 ihdp_kept) (take 2 ?cols)
             @ zip [''y_cfactual'', ''mu0'', ''mu1''] (take 3 (drop 2 ?cols))
             @ zip (drop 2 ihdp_kept) (drop 5 ?cols)"
    by (rule zip_append3) (simp_all add: len lk)
  then have z: "zip ihdp_col ?cols =
             zip (take 2 ihdp_kept) (take 2 ?cols)
             @ zip [''y_cfactual'', ''mu0'', ''mu1''] (take 3 (drop 2 ?cols))
             @ zip (drop 2 ihdp_kept) (drop 5 ?cols)"
    by (simp only: split ihdp_col_parts [symmetric])
  have p1: "list_all ?Q (take 2 ihdp_kept)" and p3: "list_all ?Q (drop 2 ihdp_kept)"
    using ihdp_kept_pass
    by (auto simp: list_all_iff dest: in_set_takeD in_set_dropD)
  have f1: "filter (\<lambda>c. ?Q (fst c)) (zip (take 2 ihdp_kept) (take 2 ?cols))
              = zip (take 2 ihdp_kept) (take 2 ?cols)"
    by (rule filter_zip_keep [OF _ p1]) (simp add: len lk)
  have f2: "filter (\<lambda>c. ?Q (fst c)) (zip [''y_cfactual'', ''mu0'', ''mu1''] (take 3 (drop 2 ?cols)))
              = []"
    by (rule filter_zip_drop [OF _ ihdp_ignored_fail]) (simp add: len)
  have f3: "filter (\<lambda>c. ?Q (fst c)) (zip (drop 2 ihdp_kept) (drop 5 ?cols))
              = zip (drop 2 ihdp_kept) (drop 5 ?cols)"
    by (rule filter_zip_keep [OF _ p3]) (simp add: len lk)
  have "df = zip (take 2 ihdp_kept) (take 2 ?cols) @ zip (drop 2 ihdp_kept) (drop 5 ?cols)"
    by (simp only: df z filter_append f1 f2 f3 append_Nil)
  also have "\<dots> = zip (take 2 ihdp_kept @ drop 2 ihdp_kept) (take 2 ?cols @ drop 5 ?cols)"
    by (rule zip_append [symmetric]) (simp add: len lk)
  finally have "df = zip ihdp_kept (map snd (take 2 raw @ drop 5 raw))"
    by (simp add: take_map drop_map)
  with raw len show ?thesis by blast
qed

lemma synth_ihdp_returns:
  assumes "length raw = 30"
  shows "\<exists>df. synth_ihdp (Inr raw) = Inr df"
proof -
  have "length ihdp_col = 30" by code_simp
  with assms show ?thesis
    by (simp add: synth_ihdp_def set_columns_def Let_def)
qed

text \<open>
  C9. A frame returned by \<open>synth_ihdp\<close> has exactly the 27 columns \<open>treatment\<close>,
  \<open>y_factual\<close> and \<open>x1\<close> to \<open>x25\<close>: of the 30 labelled columns of the file, the
  loader drops those whose label contains \<open>y_cfactual\<close> or \<open>mu\<close> (the third, fourth
  and fifth) and keeps all others with their values.
\<close>

theorem synth_ihdp_columns:
  assumes "synth_ihdp read_csv = Inr df"
  shows "columns df =
             [''treatment'', ''y_factual'', ''x1'', ''x2'', ''x3'', ''x4'', ''x5'',
              ''x6'', ''x7'', ''x8'', ''x9'', ''x10'', ''x11'', ''x12'', ''x13'',
              ''x14'', ''x15'', ''x16'', ''x17'', ''x18'', ''x19'', ''x20'', ''x21'',
              ''x22'', ''x23'', ''x24'', ''x25''] \<and>
         length (columns df) = 27 \<and>
         (\<exists>raw. read_csv = Inr raw \<and> length raw = 30 \<and>
            df = filter (\<lambda>c. \<not> (contains ''y_cfactual'' (fst c) \<or> contains ''mu'' (fst c)))
                   (zip ihdp_col (map snd raw)) \<and>
            map snd df = map snd (take 2 raw @ drop 5 raw))"
proof -
  from synth_ihdp_frame [OF assms] obtain raw where raw: "read_csv = Inr raw"
    and len: "length raw = 30"
    and df: "df = zip ihdp_kept (map snd (take 2 raw @ drop 5 raw))"
    by blast
  have lk: "length ihdp_kept = 27" by code_simp
  from len have l2: "length (map snd (take 2 raw @ drop 5 raw)) = 27" by simp
  from df lk l2 have cols: "columns df = ihdp_kept"
    by (simp only: columns_zip)
  from df lk l2 have vals: "map snd df = map snd (take 2 raw @ drop 5 raw)"
    by (simp only: map_snd_zip)
  from synth_ihdp_InrD [OF assms] raw
  have "df = filter (\<lambda>c. \<not> list_ex (\<lambda>s. contains s (fst c)) [''y_cfactual'', ''mu''])
                  (zip ihdp_col (map snd raw))"
    by auto
  then have flt: "df = filter (\<lambda>c. \<not> (contains ''y_cfactual'' (fst c) \<or> contains ''mu'' (fst c)))
                   (zip ihdp_col (map snd raw))"
    by simp
  from cols have "columns df =
             [''treatment'', ''y_factual'', ''x1'', ''x2'', ''x3'', ''x4'', ''x5'',
              ''x6'', ''x7'', ''x8'', ''x9'', ''x10'', ''x11'', ''x12'', ''x13'',
              ''x14'', ''x15'', ''x16'', ''x17'', ''x18'', ''x19'', ''x20'', ''x21'',
              ''x22'', ''x23'', ''x24'', ''x25'']"
    by (simp only: ihdp_kept_def)
  moreover from cols lk have "length (columns df) = 27" by simp
  ultimately show ?thesis using raw len flt vals by blast
qed

lemma synth_ihdp_toy:
  "synth_ihdp (Inr toy_ihdp_raw) =
     Inr (zip ihdp_kept (map snd (take 2 toy_ihdp_raw @ drop 5 toy_ihdp_raw)))"
  by code_simp

theorem synth_ihdp_columns_witness:
  "synth_ihdp (Inr toy_ihdp_raw) =
     Inr (zip ihdp_kept (map snd (take 2 toy_ihdp_raw @ drop 5 toy_ihdp_raw))) \<and>
   length (columns (zip ihdp_kept (map snd (take 2 toy_ihdp_raw @ drop 5 toy_ihdp_raw)))) = 27"
proof -
  note h = synth_ihdp_toy
  from synth_ihdp_columns [OF h] h show ?thesis by blast
qed








lemma carried_refl: "carried c c"
  by (simp add: carried_def)

lemma carried_as_float: "carried c (as_float c)"
  by (simp add: carried_def)










lemma synth_acic_InrD:
  assumes "synth_acic read_x read_zymu condition = Inr data"
  shows "\<exists>covariates z_y_mu y_factual zs.
           read_x = Inr covariates \<and> read_zymu condition = Inr z_y_mu \<and>
           apply_rows factual_outcome z_y_mu = Inr y_factual \<and>
           get_col z_y_mu ''z'' = Inr zs \<and>
           data = rename_columns
                    (concat_columns [[(''z'', zs)], [(''y_factual'', y_factual)], covariates])
                    [(''z'', ''treatment'')]"
proof (cases read_x)
  case (Inl e)
  with assms show ?thesis by (simp add: synth_acic_def)
next
  case (Inr covariates)
  note rx = this
  show ?thesis
  proof (cases "read_zymu condition")
    case (Inl e)
    with assms rx show ?thesis by (simp add: synth_acic_def)
  next
    case (Inr z_y_mu)
    note rz = this
    show ?thesis
    proof (cases "apply_rows factual_outcome z_y_mu")
      case (Inl e)
      with assms rx rz show ?thesis by (simp add: synth_acic_def)
    next
      case (Inr y_factual)
      note yf = this
      show ?thesis
      proof (cases "get_col z_y_mu ''z''")
        case (Inl e)
        with assms rx rz yf show ?thesis
          by (simp add: synth_acic_def Let_def get_col_set_col)
      next
        case (Inr zs)
        with assms rx rz yf have "data = rename_columns
                    (concat_columns [[(''z'', zs)], [(''y_factual'', y_factual)], covariates])
                    [(''z'', ''treatment'')]"
          by (simp add: synth_acic_def Let_def get_col_set_col)
        with rx rz yf Inr show ?thesis by blast
      qed
    qed
  qed
qed

lemma acic_frame:
  "rename_columns (concat_columns [[(''z'', zs)], [(''y_factual'', ys)], covariates])
     [(''z'', ''treatment'')] =
   (''treatment'', pad_to (max (len_df covariates) (max (length ys) (length zs))) zs)
   # (''y_factual'', pad_to (max (len_df covariates) (max (length ys) (length zs))) ys)
   # map (\<lambda>c. (if fst c = ''z'' then ''treatment'' else fst c,
                 pad_to (max (len_df covariates) (max (length ys) (length zs))) (snd c)))
       covariates"
  by (simp add: rename_columns_def concat_columns_def len_df_def Let_def)



lemma synth_acic_toy:
  "synth_acic (Inr toy_x) (\<lambda>c. Inr toy_zymu) 1 =
     Inr [(''treatment'', [IntV 1, IntV 0]),
          (''y_factual'', [FloatV 3, FloatV 2]),
          (''x_1'', [IntV 7, IntV 8]),
          (''x_2'', [StrV ''a'', StrV ''b''])]"
  by code_simp



lemma amazon_reviews_InrD:
  assumes "snd (amazon_reviews gdown fetch rating) = Inr (Some df)"
  shows "columns df = amazon_col"
proof -
  from assms obtain df0 where "set_columns df0 amazon_col = Inr df"
    by (auto simp: amazon_reviews_def Let_def split: if_splits sum.splits)
  from set_columns_Inr [OF this] show ?thesis by blast
qed

lemma toy_amazon_labels: "labels_at toy_amazon_raw [2, 3, 4] = Inr [''a'', ''b'', ''c'']"
  by (simp add: labels_at_def toy_amazon_raw_def columns_def)

lemma toy_amazon_dropped:
  "drop_columns toy_amazon_raw [''a'', ''b'', ''c''] =
     (''t'', []) # (''y'', []) # map (\<lambda>i. (''x_'' @ str_nat i, [])) [1..<301]"
  by (simp add: drop_columns_def toy_amazon_raw_def filter_map o_def)

lemma zip_map_same: "zip (map g xs) (map h xs) = map (\<lambda>x. (g x, h x)) xs"
  by (induction xs) auto

lemma toy_amazon_relabelled:
  "set_columns ((''t'', []) # (''y'', []) # map (\<lambda>i. (''x_'' @ str_nat i, [])) [1..<301])
     amazon_col = Inr (map (\<lambda>n. (n, [])) amazon_col)"
  by (simp add: set_columns_def amazon_col_def zip_map_same o_def)

lemma toy_amazon_columns_set:
  "set_columns (drop_columns toy_amazon_raw [''a'', ''b'', ''c'']) amazon_col =
     Inr (map (\<lambda>n. (n, [])) amazon_col)"
  by (simp only: toy_amazon_dropped toy_amazon_relabelled)

lemma amazon_reviews_toy:
  "snd (amazon_reviews True (\<lambda>u f. Inr toy_amazon_raw) ''pos'') =
     Inr (Some (map (\<lambda>n. (n, [])) amazon_col))"
  by (simp add: amazon_reviews_def Let_def toy_amazon_labels toy_amazon_columns_set)

lemma ihdp_kept_names:
  "ihdp_kept = ''treatment'' # ''y_factual'' # map (\<lambda>i. ''x'' @ str_nat i) [1..<26]"
  by code_simp

lemma amazon_col_names:
  "amazon_col = ''treatment'' # ''y_factual'' # map (\<lambda>i. ''x_'' @ str_nat i) [1..<301]"
  by (simp add: amazon_col_def)

lemma synth_acic_columns:
  assumes "synth_acic read_x read_zymu condition = Inr df" and "read_x = Inr covariates"
  shows "columns df = ''treatment'' # ''y_factual''
           # map (\<lambda>n. if n = ''z'' then ''treatment'' else n) (columns covariates)"
proof -
  from synth_acic_InrD [OF assms(1)] assms(2) obtain y_factual zs where
    "df = rename_columns
            (concat_columns [[(''z'', zs)], [(''y_factual'', y_factual)], covariates])
            [(''z'', ''treatment'')]"
    by auto
  then show ?thesis
    by (simp add: acic_frame columns_def)
qed

text \<open>
  C7. Every frame a loader returns has the column \<open>treatment\<close>, then the column
  \<open>y_factual\<close>, and after them covariates only: \<open>x1\<close> to \<open>x25\<close> for
  \<open>synth_ihdp\<close>, the columns of the covariate file for \<open>synth_acic\<close>, \<open>x_1\<close> to
  \<open>x_300\<close> for \<open>amazon_reviews\<close>.
\<close>

theorem loaders_columns:
  "(synth_ihdp read_csv = Inr df1 \<longrightarrow>
      columns df1 = ''treatment'' # ''y_factual'' # map (\<lambda>i. ''x'' @ str_nat i) [1..<26]) \<and>
   (synth_acic read_x read_zymu condition = Inr df2 \<and> read_x = Inr covariates \<longrightarrow>
      columns df2 = ''treatment'' # ''y_factual''
        # map (\<lambda>n. if n = ''z'' then ''treatment'' else n) (columns covariates)) \<and>
   (snd (amazon_reviews gdown fetch rating) = Inr (Some df3) \<longrightarrow>
      columns df3 = ''treatment'' # ''y_factual'' # map (\<lambda>i. ''x_'' @ str_nat i) [1..<301])"
proof (intro conjI impI)
  assume "synth_ihdp read_csv = Inr df1"
  from synth_ihdp_frame [OF this] obtain raw where raw: "read_csv = Inr raw"
    and len: "length raw = 30"
    and df: "df1 = zip ihdp_kept (map snd (take 2 raw @ drop 5 raw))"
    by blast
  have lk: "length ihdp_kept = 27" by code_simp
  from len have "length (map snd (take 2 raw @ drop 5 raw)) = 27" by simp
  with df lk have "columns df1 = ihdp_kept" by (simp only: columns_zip)
  then show "columns df1 = ''treatment'' # ''y_factual'' # map (\<lambda>i. ''x'' @ str_nat i) [1..<26]"
    by (simp only: ihdp_kept_names)
next
  assume "synth_acic read_x read_zymu condition = Inr df2 \<and> read_x = Inr covariates"
  then show "columns df2 = ''treatment'' # ''y_factual''
        # map (\<lambda>n. if n = ''z'' then ''treatment'' else n) (columns covariates)"
    using synth_acic_columns by blast
next
  assume "snd (amazon_reviews gdown fetch rating) = Inr (Some df3)"
  from amazon_reviews_InrD [OF this]
  show "columns df3 = ''treatment'' # ''y_factual'' # map (\<lambda>i. ''x_'' @ str_nat i) [1..<301]"
    by (simp only: amazon_col_names)
qed

theorem loaders_columns_witness:
  "synth_ihdp (Inr toy_ihdp_raw) =
     Inr (zip ihdp_kept (map snd (take 2 toy_ihdp_raw @ drop 5 toy_ihdp_raw))) \<and>
   synth_acic (Inr toy_x) (\<lambda>c. Inr toy_zymu) 1 =
     Inr [(''treatment'', [IntV 1, IntV 0]),
          (''y_factual'', [FloatV 3, FloatV 2]),
          (''x_1'', [IntV 7, IntV 8]),
          (''x_2'', [StrV ''a'', StrV ''b''])] \<and>
   snd (amazon_reviews True (\<lambda>u f. Inr toy_amazon_raw) ''pos'') =
     Inr (Some (map (\<lambda>n. (n, [])) amazon_col)) \<and>
   columns (zip ihdp_kept (map snd (take 2 toy_ihdp_raw @ drop 5 toy_ihdp_raw))) =
     ''treatment'' # ''y_factual'' # map (\<lambda>i. ''x'' @ str_nat i) [1..<26] \<and>
   columns (map (\<lambda>n. (n, [])) amazon_col) =
     ''treatment'' # ''y_factual'' # map (\<lambda>i. ''x_'' @ str_nat i) [1..<301]"
proof -
  note h1 = synth_ihdp_toy
  note h2 = synth_acic_toy
  note h3 = amazon_reviews_toy
  from loaders_columns [of "Inr toy_ihdp_raw"
      "zip ihdp_kept (map snd (take 2 toy_ihdp_raw @ drop 5 toy_ihdp_raw))"
      "Inr toy_x" "\<lambda>c. Inr toy_zymu" 1
      "[(''treatment'', [IntV 1, IntV 0]), (''y_factual'', [FloatV 3, FloatV 2]),
        (''x_1'', [IntV 7, IntV 8]), (''x_2'', [StrV ''a'', StrV ''b''])]"
      toy_x True "\<lambda>u f. Inr toy_amazon_raw" "''pos''" "map (\<lambda>n. (n, [])) amazon_col"]
    h1 h2 h3
  show ?thesis by blast
qed

text \<open>
  C10. For a rating other than \<open>pos\<close> and \<open>neg\<close>, \<open>amazon_reviews\<close> prints the message
  of the caught assertion and nothing else, downloads nothing, and raises
  \<^verbatim>\<open>UnboundLocalError\<close> for \<^verbatim>\<open>url\<close>, whether or not \<^verbatim>\<open>gdown\<close> can be imported; it
  returns no frame.
\<close>

theorem amazon_reviews_bad_rating:
  assumes "rating \<notin> {''pos'', ''neg''}"
  shows "amazon_reviews gdown fetch rating =
           ([Print assert_message], Inl (UnboundLocalError ''url''))"
  using assms by (simp add: amazon_reviews_def Let_def)

theorem amazon_reviews_bad_rating_witness:
  "''both'' \<notin> {''pos'', ''neg''} \<and>
   amazon_reviews True (\<lambda>u f. Inr []) ''both'' =
     ([Print assert_message], Inl (UnboundLocalError ''url''))"
proof -
  have h: "''both'' \<notin> {''pos'', ''neg''}" by simp
  from amazon_reviews_bad_rating [OF h] h show ?thesis by simp
qed

section \<open>Properties of the tuning run\<close>

lemma successes_run:
  "successes (run fit score cands) =
     map (\<lambda>c. (c, score (projr (fit c)))) (filter (\<lambda>c. \<not> fails fit c) cands)"
  by (induction cands) (auto simp: run_def run_trial_def fails_def split: sum.splits)

lemma best_from_mem: "best_from d b xs \<in> set (b # xs)"
proof (induction xs arbitrary: b)
  case Nil
  then show ?case by simp
next
  case (Cons x xs)
  from Cons.IH [of "if better d (snd x) (snd b) then x else b"]
  show ?case by (auto split: if_splits)
qed

lemma not_better_trans:
  "\<not> better d a b \<Longrightarrow> \<not> better d b c \<Longrightarrow> \<not> better d a c"
  by (cases d) (simp_all add: better_def)

lemma better_not_refl: "\<not> better d a a"
  by (cases d) (simp_all add: better_def)

lemma better_asym: "better d a b \<Longrightarrow> \<not> better d b a"
  by (cases d) (simp_all add: better_def)

lemma best_from_keeps:
  "\<not> better d (snd b) (snd (best_from d b xs))"
proof (induction xs arbitrary: b)
  case Nil
  then show ?case by (simp add: better_not_refl)
next
  case (Cons x xs)
  let ?b' = "if better d (snd x) (snd b) then x else b"
  have step: "\<not> better d (snd b) (snd ?b')"
    by (cases "better d (snd x) (snd b)") (simp_all add: better_asym better_not_refl)
  have "\<not> better d (snd ?b') (snd (best_from d ?b' xs))" by (rule Cons.IH)
  with step have "\<not> better d (snd b) (snd (best_from d ?b' xs))"
    by (rule not_better_trans)
  then show ?case by simp
qed

lemma best_from_optimal:
  "x \<in> set (b # xs) \<Longrightarrow> \<not> better d (snd x) (snd (best_from d b xs))"
proof (induction xs arbitrary: b)
  case Nil
  then show ?case by (simp add: better_not_refl)
next
  case (Cons y ys)
  let ?b' = "if better d (snd y) (snd b) then y else b"
  have k: "\<not> better d (snd ?b') (snd (best_from d ?b' ys))" by (rule best_from_keeps)
  from Cons.prems consider "x = b" | "x = y" | "x \<in> set ys" by auto
  then have "\<not> better d (snd x) (snd (best_from d ?b' ys))"
  proof cases
    case 1
    have "\<not> better d (snd b) (snd ?b')"
      by (cases "better d (snd y) (snd b)") (simp_all add: better_asym better_not_refl)
    from not_better_trans [OF this k] 1 show ?thesis by simp
  next
    case 2
    have "\<not> better d (snd y) (snd ?b')"
      by (cases "better d (snd y) (snd b)") (simp_all add: better_not_refl)
    from not_better_trans [OF this k] 2 show ?thesis by simp
  next
    case 3
    then have "x \<in> set (?b' # ys)" by simp
    then show ?thesis by (rule Cons.IH)
  qed
  then show ?case by simp
qed

lemma length_run: "length (run fit score cands) = length cands"
  by (simp add: run_def)

lemma keys_run: "map fst (run fit score cands) = cands"
  by (simp add: run_def run_trial_def o_def)

lemma nth_run: "i < length cands \<Longrightarrow> run fit score cands ! i = run_trial fit score (cands ! i)"
  by (simp add: run_def)

lemma count_successes:
  "length (successes (run fit score cands)) =
     length cands - length (filter (fails fit) cands)"
proof -
  have "length (filter (fails fit) cands) + length (filter (\<lambda>c. \<not> fails fit c) cands)
          = length cands"
    by (rule sum_length_filter_compl)
  then show ?thesis by (simp add: successes_run)
qed

lemma select_best_error:
  "(select_best d (run fit score cands) = Inl NoSuccessfulTrialError) =
     (length (filter (fails fit) cands) = length cands)"
proof -
  have "(select_best d (run fit score cands) = Inl NoSuccessfulTrialError) =
          (successes (run fit score cands) = [])"
    by (simp add: select_best_def split: list.splits)
  also have "\<dots> = (length (successes (run fit score cands)) = 0)" by simp
  also have "\<dots> = (length (filter (fails fit) cands) = length cands)"
    using length_filter_le [of "fails fit" cands]
    by (simp only: count_successes) arith
  finally show ?thesis .
qed

lemma select_best_Inr:
  assumes "select_best d (run fit score cands) = Inr c"
  shows "\<exists>m. c \<in> set cands \<and> fit c = Inr m \<and>
           (\<forall>c'\<in>set cands. \<forall>m'. fit c' = Inr m' \<longrightarrow> \<not> better d (score m') (score m))"
proof -
  from assms obtain x xs where sx: "successes (run fit score cands) = x # xs"
    and c: "c = fst (best_from d x xs)"
    by (auto simp: select_best_def split: list.splits)
  let ?best = "best_from d x xs"
  have "?best \<in> set (x # xs)" by (rule best_from_mem)
  with sx have "?best \<in> set (successes (run fit score cands))" by simp
  then obtain c0 where c0: "c0 \<in> set cands" and nf: "\<not> fails fit c0"
    and best: "?best = (c0, score (projr (fit c0)))"
    by (auto simp: successes_run)
  from nf obtain m where m: "fit c0 = Inr m"
    by (cases "fit c0") (simp_all add: fails_def)
  from best c have cc: "c = c0" by simp
  have opt: "\<forall>c'\<in>set cands. \<forall>m'. fit c' = Inr m' \<longrightarrow> \<not> better d (score m') (score m)"
  proof (intro ballI allI impI)
    fix c' m'
    assume c': "c' \<in> set cands" and m': "fit c' = Inr m'"
    then have "\<not> fails fit c'" by (simp add: fails_def)
    with c' m' have "(c', score m') \<in> set (successes (run fit score cands))"
      by (force simp: successes_run)
    with sx have "(c', score m') \<in> set (x # xs)" by simp
    from best_from_optimal [OF this, of d] best m
    show "\<not> better d (score m') (score m)" by simp
  qed
  from c0 m opt cc show ?thesis by blast
qed

text \<open>
  C1. A run over \<open>N\<close> candidates of which \<open>K\<close> fail to fit has exactly \<open>N\<close>
  entries, one per candidate in list order, each the outcome of that candidate's own
  trial whatever the others did; \<open>N - K\<close> of them are successes. \<open>select_best\<close>
  raises \<open>NoSuccessfulTrialError\<close> exactly when \<open>K = N\<close>, and otherwise returns a
  candidate that was fitted and whose score no fitted candidate's score beats.
\<close>

theorem run_select_best:
  "length (run fit score cands) = length cands \<and>
   map fst (run fit score cands) = cands \<and>
   (\<forall>i<length cands. run fit score cands ! i = run_trial fit score (cands ! i)) \<and>
   length (successes (run fit score cands)) =
     length cands - length (filter (fails fit) cands) \<and>
   (select_best d (run fit score cands) = Inl NoSuccessfulTrialError) =
     (length (filter (fails fit) cands) = length cands) \<and>
   (\<forall>c. select_best d (run fit score cands) = Inr c \<longrightarrow>
      (\<exists>m. c \<in> set cands \<and> fit c = Inr m \<and>
         (\<forall>c'\<in>set cands. \<forall>m'. fit c' = Inr m' \<longrightarrow> \<not> better d (score m') (score m))))"
  using length_run [of fit score cands] keys_run [of fit score cands]
    nth_run [of _ cands fit score] count_successes [of fit score cands]
    select_best_error [of d fit score cands] select_best_Inr [of d fit score cands]
  by blast

lemma run_toy:
  "run toy_fit toy_score [''a'', ''b'', ''c''] =
     [(''a'', Succeeded ''a'' 2), (''b'', Failed ''did not converge''),
      (''c'', Succeeded ''c'' 1)]"
  by (simp add: run_def run_trial_def toy_fit_def toy_score_def)

lemma select_best_toy:
  "select_best LowerIsBetter (run toy_fit toy_score [''a'', ''b'', ''c'']) = Inr ''c''"
  by (simp add: run_toy select_best_def better_def)

theorem run_select_best_witness:
  "select_best LowerIsBetter (run toy_fit toy_score [''a'', ''b'', ''c'']) = Inr ''c'' \<and>
   length (run toy_fit toy_score [''a'', ''b'', ''c'']) = 3 \<and>
   length (filter (fails toy_fit) [''a'', ''b'', ''c'']) = 1 \<and>
   length (successes (run toy_fit toy_score [''a'', ''b'', ''c''])) = 2 \<and>
   toy_fit ''c'' = Inr ''c'' \<and>
   \<not> better LowerIsBetter (toy_score ''a'') (toy_score ''c'') \<and>
   select_best LowerIsBetter (run toy_fit toy_score [''b'']) = Inl NoSuccessfulTrialError"
proof -
  note h = select_best_toy
  have k: "length (filter (fails toy_fit) [''a'', ''b'', ''c'']) = 1"
    by (simp add: fails_def toy_fit_def)
  have a: "toy_fit ''a'' = Inr ''a''" and c: "toy_fit ''c'' = Inr ''c''"
    by (simp_all add: toy_fit_def)
  have k1: "length (filter (fails toy_fit) [''b'']) = length [''b'']"
    by (simp add: fails_def toy_fit_def)
  note t = run_select_best [of toy_fit toy_score "[''a'', ''b'', ''c'']" LowerIsBetter]
  note t1 = run_select_best [of toy_fit toy_score "[''b'']" LowerIsBetter]
  from t h c obtain m where "toy_fit ''c'' = Inr m"
    and "\<forall>c'\<in>set [''a'', ''b'', ''c'']. \<forall>m'. toy_fit c' = Inr m' \<longrightarrow>
           \<not> better LowerIsBetter (toy_score m') (toy_score m)"
    by blast
  with a c have nb: "\<not> better LowerIsBetter (toy_score ''a'') (toy_score ''c'')"
    by auto
  from t have l: "length (run toy_fit toy_score [''a'', ''b'', ''c'']) = 3"
    and s: "length (successes (run toy_fit toy_score [''a'', ''b'', ''c''])) = 2"
    using k by simp_all
  from t1 k1 have e: "select_best LowerIsBetter (run toy_fit toy_score [''b'']) =
      Inl NoSuccessfulTrialError"
    by blast
  from h l k s c nb e show ?thesis by blast
qed

end
